theory Spec2Isabelle
  imports Complex_Main "HOL-Library.Sublist"
begin

text \<open>
  The scripts of the PNP markets skill (\<^verbatim>\<open>create-market.ts\<close>, \<^verbatim>\<open>trade.ts\<close>,
  \<^verbatim>\<open>settle.ts\<close>) and the two registry workflows of \<^verbatim>\<open>SKILL.md\<close> (the steps after a
  creation, and \<^verbatim>\<open>checkAndSettleDueMarkets\<close>), as functions on an explicit world: the
  chain behind the SDK, the files under \<^verbatim>\<open>markets/\<close>, and a trace of the SDK calls and
  file writes.  Every \<^verbatim>\<open>throw\<close> is an error value; the SDK and the library functions are
  parameters about which nothing is assumed.
\<close>

section \<open>JavaScript values used by the scripts\<close>

text \<open>
  A JavaScript \<^verbatim>\<open>number\<close> is modelled as \<open>NaN\<close> or an exact rational (finite
  numbers, exact arithmetic; the infinities and the rounding of IEEE doubles are outside the
  model).  Strings are lists of ASCII characters.
\<close>

datatype jsnum = NaN | Num rat

text \<open>\<^verbatim>\<open>!n\<close> for a number: true for \<open>0\<close> and \<open>NaN\<close>.\<close>

fun num_falsy :: "jsnum \<Rightarrow> bool" where
  "num_falsy NaN = True"
| "num_falsy (Num q) = (q = 0)"

text \<open>The comparisons \<^verbatim>\<open>a <= b\<close>, \<^verbatim>\<open>a >= b\<close>, \<^verbatim>\<open>a < b\<close>: false as soon as one side is \<open>NaN\<close>.\<close>

fun js_le :: "jsnum \<Rightarrow> jsnum \<Rightarrow> bool" where
  "js_le (Num a) (Num b) = (a \<le> b)"
| "js_le _ _ = False"

fun js_ge :: "jsnum \<Rightarrow> jsnum \<Rightarrow> bool" where
  "js_ge (Num a) (Num b) = (a \<ge> b)"
| "js_ge _ _ = False"

fun js_lt :: "jsnum \<Rightarrow> jsnum \<Rightarrow> bool" where
  "js_lt (Num a) (Num b) = (a < b)"
| "js_lt _ _ = False"

datatype outcome = YES | NO

text \<open>
  One constructor per \<^verbatim>\<open>throw\<close> site of the scripts.  The parameter type
  \<^verbatim>\<open>"YES" | "NO"\<close> is the datatype \<^typ>\<open>outcome\<close>, so the guard
  \<^verbatim>\<open>outcome !== "YES" && outcome !== "NO"\<close> can never fire and has no constructor.
  \<open>ExternalCallFailure\<close> is whatever the SDK throws, \<open>RuntimeFailure\<close> what a library
  function (\<^verbatim>\<open>ethers.parseUnits\<close>, \<^verbatim>\<open>Date.prototype.toISOString\<close>) throws,
  \<open>FileMissing\<close> the \<^verbatim>\<open>ENOENT\<close> of \<^verbatim>\<open>fs.readFileSync\<close>.
\<close>

datatype error =
    ConditionIdRequired
  | AmountNotPositive
  | TradingPeriodEnded
  | MarketSettled
  | MarketAlreadySettled "outcome option"
  | CannotSettleYet "int option" "int option"
  | QuestionRequired
  | DurationNotPositive
  | LiquidityNotPositive
  | UnknownToken string
  | ExternalCallFailure string
  | RuntimeFailure string
  | FileMissing string

text \<open>The error taxonomy of the specification, and the class each thrown error falls in.\<close>

datatype error_kind =
  ValidationError | NotFound | AlreadySettled | NotDue | MarketClosed | ExternalFailure

fun kind_of :: "error \<Rightarrow> error_kind" where
  "kind_of ConditionIdRequired = ValidationError"
| "kind_of AmountNotPositive = ValidationError"
| "kind_of TradingPeriodEnded = MarketClosed"
| "kind_of MarketSettled = AlreadySettled"
| "kind_of (MarketAlreadySettled w) = AlreadySettled"
| "kind_of (CannotSettleYet h m) = NotDue"
| "kind_of QuestionRequired = ValidationError"
| "kind_of DurationNotPositive = ValidationError"
| "kind_of LiquidityNotPositive = ValidationError"
| "kind_of (UnknownToken t) = ValidationError"
| "kind_of (ExternalCallFailure m) = ExternalFailure"
| "kind_of (RuntimeFailure m) = ExternalFailure"
| "kind_of (FileMissing p) = NotFound"

section \<open>The external collaborators\<close>

text \<open>
  Library functions of the JavaScript runtime and of \<^verbatim>\<open>ethers\<close>, taken as
  parameters: \<^verbatim>\<open>parseFloat\<close>, \<^verbatim>\<open>parseInt\<close>, \<^verbatim>\<open>ethers.parseUnits(value, decimals)\<close>
  (throws on a malformed value) and \<^verbatim>\<open>new Date(ms).toISOString()\<close> (throws a
  \<^verbatim>\<open>RangeError\<close> on an invalid date).
\<close>

record runtime =
  parseFloat :: "string \<Rightarrow> jsnum"
  parseInt :: "string \<Rightarrow> jsnum"
  parseUnits :: "string \<Rightarrow> int \<Rightarrow> string + int"
  toISOString :: "rat \<Rightarrow> string + string"

text \<open>What \<^verbatim>\<open>client.market.getMarketInfo\<close> returns, as far as the scripts read it.\<close>

record market_info =
  info_question :: string
  info_endTime :: string
  info_isSettled :: bool

record market_prices =
  yesPricePercent :: string
  noPricePercent :: string

record create_args =
  ca_question :: string
  ca_endTime :: rat
  ca_initialLiquidity :: int
  ca_collateralToken :: string

text \<open>
  The \<^verbatim>\<open>pnp-evm\<close> client and the clock.  The chain is an opaque state \<open>'c\<close>; every
  SDK method takes the state, answers with a thrown message (\<open>Inl\<close>) or a value
  (\<open>Inr\<close>), and leaves a new state.  Nothing is assumed about the answers.
  \<open>date_now\<close> is \<^verbatim>\<open>Math.floor(Date.now() / 1000)\<close>, \<open>date_iso\<close> is
  \<^verbatim>\<open>new Date().toISOString()\<close>.
\<close>

record 'c sdk =
  market_getMarketInfo :: "string \<Rightarrow> 'c \<Rightarrow> (string + market_info) \<times> 'c"
  market_getMarketPrices :: "string \<Rightarrow> 'c \<Rightarrow> (string + market_prices) \<times> 'c"
  market_createMarket :: "create_args \<Rightarrow> 'c \<Rightarrow> (string + string \<times> string) \<times> 'c"
  market_settleMarket :: "string \<Rightarrow> string \<Rightarrow> 'c \<Rightarrow> (string + string) \<times> 'c"
  redemption_isResolved :: "string \<Rightarrow> 'c \<Rightarrow> (string + bool) \<times> 'c"
  redemption_getWinningToken :: "string \<Rightarrow> 'c \<Rightarrow> (string + string) \<times> 'c"
  trading_getTokenId :: "string \<Rightarrow> outcome \<Rightarrow> 'c \<Rightarrow> (string + string) \<times> 'c"
  trading_buy :: "string \<Rightarrow> int \<Rightarrow> outcome \<Rightarrow> int \<Rightarrow> 'c \<Rightarrow> (string + string) \<times> 'c"
  trading_sell :: "string \<Rightarrow> int \<Rightarrow> outcome \<Rightarrow> int \<Rightarrow> 'c \<Rightarrow> (string + string) \<times> 'c"
  date_now :: "'c \<Rightarrow> int"
  date_iso :: "'c \<Rightarrow> string"

section \<open>The local market registry\<close>

text \<open>An element of the \<^verbatim>\<open>markets\<close> array of \<^verbatim>\<open>markets/registry.json\<close>.\<close>

record entry =
  conditionId :: string
  question :: string
  endTimeUnix :: rat
  isSettled :: bool
  winner :: "outcome option"

record collateral_info =
  col_symbol :: string
  col_address :: string
  col_decimals :: int

record trading_rules =
  resolutionSource :: string
  resolutionCriteria :: string
  additionalNotes :: string

record settlement =
  s_isSettled :: bool
  s_settleTxHash :: "string option"
  s_winner :: "outcome option"
  s_settledAt :: "string option"

text \<open>The content of \<^verbatim>\<open>markets/<conditionId>.json\<close>.\<close>

record market_record =
  r_conditionId :: string
  r_question :: string
  r_createdAt :: string
  r_endTime :: string
  r_endTimeUnix :: rat
  r_collateral :: collateral_info
  r_initialLiquidity :: string
  r_createTxHash :: string
  r_tradingRules :: trading_rules
  r_settlement :: settlement

text \<open>
  What a run can be observed to do: the SDK calls it makes and the files it writes, in order.
\<close>

datatype event =
    SdkGetMarketInfo string
  | SdkGetMarketPrices string
  | SdkCreateMarket create_args
  | SdkSettleMarket string string
  | SdkIsResolved string
  | SdkGetWinningToken string
  | SdkGetTokenId string outcome
  | SdkBuy string int outcome int
  | SdkSell string int outcome int
  | FsWriteRecord string
  | FsWriteRegistry

text \<open>
  The world a script runs in: the chain, the trace of events so far, and the two kinds of
  files of the \<^verbatim>\<open>markets/\<close> directory.  \<open>registryFile\<close> is \<open>None\<close> while
  \<^verbatim>\<open>registry.json\<close> does not exist; \<open>marketFiles\<close> maps a condition id to the
  record stored under \<^verbatim>\<open>markets/<conditionId>.json\<close> (condition ids are taken to name
  distinct files, none of them \<^verbatim>\<open>registry.json\<close>; the files hold well-formed JSON).
\<close>

record 'c world =
  chain :: 'c
  trace :: "event list"
  registryFile :: "entry list option"
  marketFiles :: "string \<rightharpoonup> market_record"

section \<open>Sequencing fallible steps\<close>

text \<open>
  A step maps a world to a result (\<open>Inl\<close> a thrown error, \<open>Inr\<close> a value) and the world
  it leaves.  \<open>bind\<close> is \<^verbatim>\<open>await\<close>/\<^verbatim>\<open>;\<close>: an error skips the rest.
\<close>

type_synonym ('c, 'a) step = "'c world \<Rightarrow> (error + 'a) \<times> 'c world"

definition return :: "'a \<Rightarrow> ('c, 'a) step" where
  "return v = (\<lambda>w. (Inr v, w))"

definition throw :: "error \<Rightarrow> ('c, 'a) step" where
  "throw e = (\<lambda>w. (Inl e, w))"

definition bind :: "('c, 'a) step \<Rightarrow> ('a \<Rightarrow> ('c, 'b) step) \<Rightarrow> ('c, 'b) step" where
  "bind m f = (\<lambda>w. case m w of (Inl e, w') \<Rightarrow> (Inl e, w') | (Inr v, w') \<Rightarrow> f v w')"

text \<open>An SDK call: the chain moves on, the call is recorded, a thrown message is wrapped.\<close>

definition sdk_call :: "('c \<Rightarrow> (string + 'a) \<times> 'c) \<Rightarrow> event \<Rightarrow> ('c, 'a) step" where
  "sdk_call f ev = (\<lambda>w.
     case f (chain w) of
       (Inl m, c') \<Rightarrow> (Inl (ExternalCallFailure m), w\<lparr>chain := c', trace := trace w @ [ev]\<rparr>)
     | (Inr v, c') \<Rightarrow> (Inr v, w\<lparr>chain := c', trace := trace w @ [ev]\<rparr>))"

text \<open>A library call that may throw.\<close>

definition lib_call :: "string + 'a \<Rightarrow> ('c, 'a) step" where
  "lib_call r = (case r of Inl m \<Rightarrow> throw (RuntimeFailure m) | Inr v \<Rightarrow> return v)"

definition get_now :: "'c sdk \<Rightarrow> ('c, int) step" where
  "get_now client = (\<lambda>w. (Inr (date_now client (chain w)), w))"

definition get_iso :: "'c sdk \<Rightarrow> ('c, string) step" where
  "get_iso client = (\<lambda>w. (Inr (date_iso client (chain w)), w))"

section \<open>settle.ts\<close>

record settle_params =
  sp_conditionId :: string
  sp_outcome :: outcome

record settle_result =
  sr_hash :: string
  sr_winner :: outcome
  sr_conditionId :: string

record settlement_status =
  st_question :: string
  st_endTime :: jsnum
  st_isSettled :: bool
  st_canSettle :: bool
  st_winner :: "outcome option"
  st_timeLeftHours :: "int option"
  st_timeLeftMinutes :: "int option"

text \<open>
  \<^verbatim>\<open>remaining = endTime - now\<close>, \<^verbatim>\<open>Math.floor(remaining / 3600)\<close> and
  \<^verbatim>\<open>Math.floor((remaining % 3600) / 60)\<close>; computed only where \<open>now < endTime\<close>, so
  the remainder is that of a positive number.
\<close>

definition timeLeftHours :: "rat \<Rightarrow> int" where
  "timeLeftHours remaining = \<lfloor>remaining / 3600\<rfloor>"

definition timeLeftMinutes :: "rat \<Rightarrow> int" where
  "timeLeftMinutes remaining = \<lfloor>(remaining - 3600 * of_int \<lfloor>remaining / 3600\<rfloor>) / 60\<rfloor>"

definition getSettlementStatus ::
  "'c sdk \<Rightarrow> runtime \<Rightarrow> string \<Rightarrow> ('c, settlement_status) step" where
  "getSettlementStatus client rt cid =
    (if cid = [] then throw ConditionIdRequired
     else
       bind (sdk_call (market_getMarketInfo client cid) (SdkGetMarketInfo cid)) (\<lambda>info.
       bind (sdk_call (redemption_isResolved client cid) (SdkIsResolved cid)) (\<lambda>resolved.
       bind (get_now client) (\<lambda>now.
         let endTime = parseInt rt (info_endTime info);
             status = \<lparr> st_question = info_question info, st_endTime = endTime,
                        st_isSettled = resolved,
                        st_canSettle = (js_ge (Num (of_int now)) endTime \<and> \<not> resolved),
                        st_winner = None, st_timeLeftHours = None,
                        st_timeLeftMinutes = None \<rparr>
         in if resolved then
              bind (sdk_call (redemption_getWinningToken client cid) (SdkGetWinningToken cid))
                (\<lambda>winningToken.
              bind (sdk_call (trading_getTokenId client cid YES) (SdkGetTokenId cid YES))
                (\<lambda>yesTokenId.
              return (status\<lparr>st_winner :=
                        Some (if winningToken = yesTokenId then YES else NO)\<rparr>)))
            else if js_lt (Num (of_int now)) endTime then
              (case endTime of
                 Num t \<Rightarrow>
                   return (status\<lparr>st_timeLeftHours := Some (timeLeftHours (t - of_int now)),
                             st_timeLeftMinutes := Some (timeLeftMinutes (t - of_int now))\<rparr>)
               | NaN \<Rightarrow> return status)
            else return status))))"

definition settleMarket :: "'c sdk \<Rightarrow> runtime \<Rightarrow> settle_params \<Rightarrow> ('c, settle_result) step" where
  "settleMarket client rt params =
    (let cid = sp_conditionId params; outcome = sp_outcome params in
     if cid = [] then throw ConditionIdRequired
     else
       bind (getSettlementStatus client rt cid) (\<lambda>status.
         if st_isSettled status then throw (MarketAlreadySettled (st_winner status))
         else if \<not> st_canSettle status then
           throw (CannotSettleYet (st_timeLeftHours status) (st_timeLeftMinutes status))
         else
           bind (sdk_call (trading_getTokenId client cid outcome) (SdkGetTokenId cid outcome))
             (\<lambda>winningTokenId.
           bind (sdk_call (market_settleMarket client cid winningTokenId)
                   (SdkSettleMarket cid winningTokenId))
             (\<lambda>hash.
           return \<lparr> sr_hash = hash, sr_winner = outcome, sr_conditionId = cid \<rparr>))))"

section \<open>create-market.ts\<close>

record token_info =
  tok_address :: string
  tok_decimals :: int

definition TOKENS :: "(string \<times> token_info) list" where
  "TOKENS =
    [(''USDC'', \<lparr> tok_address = ''0x833589fCD6eDb6E08f4c7C32D4f71b54bdA02913'', tok_decimals = 6 \<rparr>),
     (''WETH'', \<lparr> tok_address = ''0x4200000000000000000000000000000000000006'', tok_decimals = 18 \<rparr>),
     (''cbETH'', \<lparr> tok_address = ''0x2Ae3F1Ec7F1F5012CFEab0185bfc7aa3cf0DEc22'', tok_decimals = 18 \<rparr>)]"

text \<open>
  \<^verbatim>\<open>TOKENS[key]\<close> is the lookup \<open>map_of TOKENS key\<close>: the keys the scripts look up are
  upper-cased, and every property a JavaScript object inherits has a lower-case letter in
  its name.

  \<^verbatim>\<open>String.prototype.toUpperCase\<close> on ASCII: the letters a to z change, nothing else.
\<close>

definition upper_char :: "char \<Rightarrow> char" where
  "upper_char c =
    (if c = CHR ''a'' then CHR ''A'' else if c = CHR ''b'' then CHR ''B''
     else if c = CHR ''c'' then CHR ''C'' else if c = CHR ''d'' then CHR ''D''
     else if c = CHR ''e'' then CHR ''E'' else if c = CHR ''f'' then CHR ''F''
     else if c = CHR ''g'' then CHR ''G'' else if c = CHR ''h'' then CHR ''H''
     else if c = CHR ''i'' then CHR ''I'' else if c = CHR ''j'' then CHR ''J''
     else if c = CHR ''k'' then CHR ''K'' else if c = CHR ''l'' then CHR ''L''
     else if c = CHR ''m'' then CHR ''M'' else if c = CHR ''n'' then CHR ''N''
     else if c = CHR ''o'' then CHR ''O'' else if c = CHR ''p'' then CHR ''P''
     else if c = CHR ''q'' then CHR ''Q'' else if c = CHR ''r'' then CHR ''R''
     else if c = CHR ''s'' then CHR ''S'' else if c = CHR ''t'' then CHR ''T''
     else if c = CHR ''u'' then CHR ''U'' else if c = CHR ''v'' then CHR ''V''
     else if c = CHR ''w'' then CHR ''W'' else if c = CHR ''x'' then CHR ''X''
     else if c = CHR ''y'' then CHR ''Y'' else if c = CHR ''z'' then CHR ''Z''
     else c)"

definition toUpperCase :: "string \<Rightarrow> string" where
  "toUpperCase s = map upper_char s"

record create_params =
  cp_question :: string
  cp_durationHours :: jsnum
  cp_liquidity :: string
  cp_collateral :: "string option"
  cp_decimals :: "int option"

record create_result =
  cr_conditionId :: string
  cr_hash :: string
  cr_endTime :: rat

text \<open>
  The end of \<^verbatim>\<open>createMarket\<close>, once the collateral is resolved: the end time, the
  liquidity in wei, the log lines (one of them formats the end time) and the SDK call.
  \<open>h\<close> is the validated \<^verbatim>\<open>durationHours\<close>.
\<close>

definition submitMarket ::
  "'c sdk \<Rightarrow> runtime \<Rightarrow> string \<Rightarrow> rat \<Rightarrow> string \<Rightarrow> string \<Rightarrow> int \<Rightarrow> ('c, create_result) step" where
  "submitMarket client rt quest h liquidity collateralAddress decimals =
     bind (get_now client) (\<lambda>now.
       let endTime = of_int now + h * 3600 in
       bind (lib_call (parseUnits rt liquidity decimals)) (\<lambda>liquidityWei.
       bind (lib_call (toISOString rt (endTime * 1000))) (\<lambda>endTimeText.
         let args = \<lparr> ca_question = quest, ca_endTime = endTime,
                       ca_initialLiquidity = liquidityWei,
                       ca_collateralToken = collateralAddress \<rparr> in
         bind (sdk_call (market_createMarket client args) (SdkCreateMarket args)) (\<lambda>created.
         return \<lparr> cr_conditionId = fst created, cr_hash = snd created,
                  cr_endTime = endTime \<rparr>))))"

definition createMarket :: "'c sdk \<Rightarrow> runtime \<Rightarrow> create_params \<Rightarrow> ('c, create_result) step" where
  "createMarket client rt params =
    (let quest = cp_question params;
         durationHours = cp_durationHours params;
         liquidity = cp_liquidity params;
         collateral = (case cp_collateral params of None \<Rightarrow> ''USDC'' | Some c \<Rightarrow> c);
         explicitDecimals = cp_decimals params
     in
     if quest = [] then throw QuestionRequired
     else if num_falsy durationHours \<or> js_le durationHours (Num 0) then throw DurationNotPositive
     else if liquidity = [] \<or> js_le (parseFloat rt liquidity) (Num 0)
       then throw LiquidityNotPositive
     else
       (case durationHours of
          NaN \<Rightarrow> throw DurationNotPositive
        | Num h \<Rightarrow>
           (case map_of TOKENS (toUpperCase collateral) of
              Some knownToken \<Rightarrow>
                submitMarket client rt quest h liquidity (tok_address knownToken)
                  (case explicitDecimals of None \<Rightarrow> tok_decimals knownToken | Some d \<Rightarrow> d)
            | None \<Rightarrow>
                if prefix ''0x'' collateral then
                  submitMarket client rt quest h liquidity collateral
                    (case explicitDecimals of None \<Rightarrow> 18 | Some d \<Rightarrow> d)
                else throw (UnknownToken collateral))))"

section \<open>trade.ts\<close>

record trade_params =
  tp_conditionId :: string
  tp_outcome :: outcome
  tp_amount :: string
  tp_decimals :: "int option"
  tp_minOut :: "string option"

datatype trade_action = Buy | Sell

record trade_result =
  tr_hash :: string
  tr_action :: trade_action
  tr_outcome :: outcome
  tr_amount :: string
  tr_updatedPrices :: market_prices

definition buyTokens :: "'c sdk \<Rightarrow> runtime \<Rightarrow> trade_params \<Rightarrow> ('c, trade_result) step" where
  "buyTokens client rt params =
    (let cid = tp_conditionId params;
         outcome = tp_outcome params;
         amount = tp_amount params;
         decimals = (case tp_decimals params of None \<Rightarrow> 6 | Some d \<Rightarrow> d);
         minOut = (case tp_minOut params of None \<Rightarrow> ''0'' | Some m \<Rightarrow> m)
     in
     if cid = [] then throw ConditionIdRequired
     else if amount = [] \<or> js_le (parseFloat rt amount) (Num 0) then throw AmountNotPositive
     else
       bind (sdk_call (market_getMarketInfo client cid) (SdkGetMarketInfo cid)) (\<lambda>info.
       bind (get_now client) (\<lambda>now.
         if js_ge (Num (of_int now)) (parseInt rt (info_endTime info))
           then throw TradingPeriodEnded
         else if info_isSettled info then throw MarketSettled
         else
           bind (lib_call (parseUnits rt amount decimals)) (\<lambda>amountWei.
           bind (lib_call (parseUnits rt minOut 18)) (\<lambda>minOutWei.
           bind (sdk_call (trading_buy client cid amountWei outcome minOutWei)
                   (SdkBuy cid amountWei outcome minOutWei)) (\<lambda>hash.
           bind (sdk_call (market_getMarketPrices client cid) (SdkGetMarketPrices cid))
             (\<lambda>newPrices.
           return \<lparr> tr_hash = hash, tr_action = Buy, tr_outcome = outcome,
                    tr_amount = amount, tr_updatedPrices = newPrices \<rparr>)))))))"

definition sellTokens :: "'c sdk \<Rightarrow> runtime \<Rightarrow> trade_params \<Rightarrow> ('c, trade_result) step" where
  "sellTokens client rt params =
    (let cid = tp_conditionId params;
         outcome = tp_outcome params;
         amount = tp_amount params;
         decimals = (case tp_decimals params of None \<Rightarrow> 18 | Some d \<Rightarrow> d);
         minOut = (case tp_minOut params of None \<Rightarrow> ''0'' | Some m \<Rightarrow> m)
     in
     if cid = [] then throw ConditionIdRequired
     else if amount = [] \<or> js_le (parseFloat rt amount) (Num 0) then throw AmountNotPositive
     else
       bind (sdk_call (market_getMarketInfo client cid) (SdkGetMarketInfo cid)) (\<lambda>info.
       bind (get_now client) (\<lambda>now.
         if js_ge (Num (of_int now)) (parseInt rt (info_endTime info))
           then throw TradingPeriodEnded
         else if info_isSettled info then throw MarketSettled
         else
           bind (lib_call (parseUnits rt amount decimals)) (\<lambda>amountWei.
           bind (lib_call (parseUnits rt minOut 6)) (\<lambda>minOutWei.
           bind (sdk_call (trading_sell client cid amountWei outcome minOutWei)
                   (SdkSell cid amountWei outcome minOutWei)) (\<lambda>hash.
           bind (sdk_call (market_getMarketPrices client cid) (SdkGetMarketPrices cid))
             (\<lambda>newPrices.
           return \<lparr> tr_hash = hash, tr_action = Sell, tr_outcome = outcome,
                    tr_amount = amount, tr_updatedPrices = newPrices \<rparr>)))))))"

section \<open>The registry workflows of SKILL.md\<close>

text \<open>\<^verbatim>\<open>fs.writeFileSync\<close> of a market file and of the registry.\<close>

definition writeMarketFile :: "string \<Rightarrow> market_record \<Rightarrow> ('c, unit) step" where
  "writeMarketFile cid r = (\<lambda>w.
     (Inr (), w\<lparr>marketFiles := (marketFiles w)(cid \<mapsto> r),
                 trace := trace w @ [FsWriteRecord cid]\<rparr>))"

definition writeRegistry :: "entry list \<Rightarrow> ('c, unit) step" where
  "writeRegistry markets = (\<lambda>w.
     (Inr (), w\<lparr>registryFile := Some markets, trace := trace w @ [FsWriteRegistry]\<rparr>))"

text \<open>\<^verbatim>\<open>JSON.parse(fs.readFileSync(marketPath))\<close>: throws when the file is missing.\<close>

definition readMarketFile :: "string \<Rightarrow> ('c, market_record) step" where
  "readMarketFile cid = (\<lambda>w.
     case marketFiles w cid of None \<Rightarrow> (Inl (FileMissing cid), w) | Some r \<Rightarrow> (Inr r, w))"

text \<open>
  Step 4 of the workflow after a creation: the registry is read, or taken as
  \<^verbatim>\<open>{ markets: [] }\<close> when the file does not exist, the new entry is pushed, and the
  file is written.
\<close>

definition updateRegistry :: "entry \<Rightarrow> ('c, unit) step" where
  "updateRegistry e = (\<lambda>w.
     let markets = (case registryFile w of None \<Rightarrow> [] | Some ms \<Rightarrow> ms)
     in writeRegistry (markets @ [e]) w)"

text \<open>
  The workflow after a creation (steps 1 to 4): create the market, build the record with
  the agent's trading rules and an unsettled settlement, write the market file, update the
  registry.  The example's literals (question, liquidity, collateral) are the parameters.
\<close>

definition createAndRecordMarket ::
  "'c sdk \<Rightarrow> runtime \<Rightarrow> create_params \<Rightarrow> collateral_info \<Rightarrow> trading_rules
     \<Rightarrow> ('c, create_result) step" where
  "createAndRecordMarket client rt params collateral rules =
     bind (createMarket client rt params) (\<lambda>result.
     bind (get_iso client) (\<lambda>createdAt.
     bind (lib_call (toISOString rt (cr_endTime result * 1000))) (\<lambda>endTimeText.
       let marketRecord =
             \<lparr> r_conditionId = cr_conditionId result,
               r_question = cp_question params,
               r_createdAt = createdAt,
               r_endTime = endTimeText,
               r_endTimeUnix = cr_endTime result,
               r_collateral = collateral,
               r_initialLiquidity = cp_liquidity params,
               r_createTxHash = cr_hash result,
               r_tradingRules = rules,
               r_settlement = \<lparr> s_isSettled = False, s_settleTxHash = None,
                                 s_winner = None, s_settledAt = None \<rparr> \<rparr>
       in
       bind (writeMarketFile (cr_conditionId result) marketRecord) (\<lambda>u.
       bind (updateRegistry
               \<lparr> conditionId = cr_conditionId result, question = r_question marketRecord,
                 endTimeUnix = cr_endTime result, isSettled = False, winner = None \<rparr>)
         (\<lambda>u'. return result)))))"


text \<open>
  The body of the scan's loop for a due entry: format the end time for the log, read the
  market file, let the agent decide the winner (\<open>decide\<close>; the example has the placeholder
  \<^verbatim>\<open>"YES"\<close>), settle on chain, write the market file with the new settlement, and
  update the entry in memory.
\<close>

definition settleDue ::
  "'c sdk \<Rightarrow> runtime \<Rightarrow> (market_record \<Rightarrow> outcome) \<Rightarrow> entry \<Rightarrow> ('c, entry) step" where
  "settleDue client rt decide e =
     bind (lib_call (toISOString rt (endTimeUnix e * 1000))) (\<lambda>ended.
     bind (readMarketFile (conditionId e)) (\<lambda>marketData.
       let winner' = decide marketData in
       bind (settleMarket client rt
               \<lparr> sp_conditionId = conditionId e, sp_outcome = winner' \<rparr>) (\<lambda>result.
       bind (get_iso client) (\<lambda>settledAt.
       bind (writeMarketFile (conditionId e)
               (marketData\<lparr>r_settlement :=
                  \<lparr> s_isSettled = True, s_settleTxHash = Some (sr_hash result),
                    s_winner = Some winner', s_settledAt = Some settledAt \<rparr>\<rparr>)) (\<lambda>u.
       return (e\<lparr>isSettled := True, winner := Some winner'\<rparr>))))))"

fun scanLoop ::
  "'c sdk \<Rightarrow> runtime \<Rightarrow> (market_record \<Rightarrow> outcome) \<Rightarrow> int \<Rightarrow> entry list
     \<Rightarrow> ('c, entry list) step" where
  "scanLoop client rt decide now [] = return []"
| "scanLoop client rt decide now (e # es) =
     (if isSettled e then
        bind (scanLoop client rt decide now es) (\<lambda>es'. return (e # es'))
      else if endTimeUnix e > of_int now then
        bind (scanLoop client rt decide now es) (\<lambda>es'. return (e # es'))
      else
        bind (settleDue client rt decide e) (\<lambda>e'.
        bind (scanLoop client rt decide now es) (\<lambda>es'. return (e' # es'))))"

text \<open>
  \<^verbatim>\<open>checkAndSettleDueMarkets\<close>: nothing happens without a registry file; otherwise the
  loop runs over the entries in order and the registry is written after it.  An error
  thrown in the loop leaves the function at once.  (The client is a parameter here;
  \<^verbatim>\<open>initClient\<close> is not modelled.)
\<close>

definition checkAndSettleDueMarkets ::
  "'c sdk \<Rightarrow> runtime \<Rightarrow> (market_record \<Rightarrow> outcome) \<Rightarrow> ('c, unit) step" where
  "checkAndSettleDueMarkets client rt decide = (\<lambda>w.
     case registryFile w of
       None \<Rightarrow> (Inr (), w)
     | Some registry \<Rightarrow>
         bind (get_now client) (\<lambda>now.
         bind (scanLoop client rt decide now registry) (\<lambda>registry'.
         writeRegistry registry')) w)"

section \<open>What a run is observed to do\<close>

text \<open>
  The condition ids of the settlement transactions, of the market files written and the
  trade transactions of a trace, in order.
\<close>

primrec settle_txs :: "event list \<Rightarrow> string list" where
  "settle_txs [] = []"
| "settle_txs (ev # evs) =
     (case ev of SdkSettleMarket cid tok \<Rightarrow> cid # settle_txs evs | _ \<Rightarrow> settle_txs evs)"


primrec trade_txs :: "event list \<Rightarrow> event list" where
  "trade_txs [] = []"
| "trade_txs (ev # evs) =
     (case ev of SdkBuy c a out m \<Rightarrow> ev # trade_txs evs
               | SdkSell c a out m \<Rightarrow> ev # trade_txs evs
               | _ \<Rightarrow> trade_txs evs)"

text \<open>The market file of a condition id exists and shows a settled market.\<close>

definition settled_in :: "'c world \<Rightarrow> string \<Rightarrow> bool" where
  "settled_in w cid =
     (case marketFiles w cid of None \<Rightarrow> False | Some r \<Rightarrow> s_isSettled (r_settlement r))"




section \<open>Runs of operations\<close>






section \<open>A simulated chain, for evaluating the scripts on concrete inputs\<close>

text \<open>
  Markets are triples of condition id, end time (as the SDK prints it) and resolved flag;
  settling a market sets its flag, creating one adds it under the next condition id.  The
  library functions are given on the literals used.
\<close>

record sim_chain =
  sim_now :: int
  sim_markets :: "(string \<times> string \<times> bool) list"
  sim_nextId :: string
  sim_nextEnd :: string

definition sim_info :: "sim_chain \<Rightarrow> string \<Rightarrow> string + market_info" where
  "sim_info c cid =
     (case map_of (sim_markets c) cid of
        None \<Rightarrow> Inl ''Market doesn't exist''
      | Some m \<Rightarrow> Inr \<lparr> info_question = ''Q1'', info_endTime = fst m, info_isSettled = snd m \<rparr>)"

definition sim_resolved :: "sim_chain \<Rightarrow> string \<Rightarrow> string + bool" where
  "sim_resolved c cid =
     (case map_of (sim_markets c) cid of
        None \<Rightarrow> Inl ''Market doesn't exist''
      | Some m \<Rightarrow> Inr (snd m))"

definition sim_resolve :: "string \<Rightarrow> sim_chain \<Rightarrow> sim_chain" where
  "sim_resolve cid c =
     c\<lparr>sim_markets :=
         map (\<lambda>m. if fst m = cid then (fst m, fst (snd m), True) else m) (sim_markets c)\<rparr>"

definition sim_client :: "sim_chain sdk" where
  "sim_client =
    \<lparr> market_getMarketInfo = (\<lambda>cid c. (sim_info c cid, c)),
      market_getMarketPrices = (\<lambda>cid c.
        (Inr \<lparr> yesPricePercent = ''50'', noPricePercent = ''50'' \<rparr>, c)),
      market_createMarket = (\<lambda>args c.
        (Inr (sim_nextId c, ''0xc1''),
         c\<lparr>sim_markets := sim_markets c @ [(sim_nextId c, sim_nextEnd c, False)]\<rparr>)),
      market_settleMarket = (\<lambda>cid tok c. (Inr ''0x51'', sim_resolve cid c)),
      redemption_isResolved = (\<lambda>cid c. (sim_resolved c cid, c)),
      redemption_getWinningToken = (\<lambda>cid c. (Inr ''1'', c)),
      trading_getTokenId = (\<lambda>cid out c. (Inr (if out = YES then ''1'' else ''2''), c)),
      trading_buy = (\<lambda>cid amount out minOut c. (Inr ''0xb1'', c)),
      trading_sell = (\<lambda>cid amount out minOut c. (Inr ''0xb2'', c)),
      date_now = sim_now,
      date_iso = (\<lambda>c. ''2025-06-15T10:30:00.000Z'') \<rparr>"

definition sim_rt :: runtime where
  "sim_rt =
    \<lparr> parseFloat = (\<lambda>s. if s = ''100'' then Num 100 else if s = ''10'' then Num 10
                       else if s = ''0'' then Num 0 else NaN),
      parseInt = (\<lambda>s. if s = ''1000'' then Num 1000 else if s = ''3000'' then Num 3000
                     else if s = ''606800'' then Num 606800 else NaN),
      parseUnits = (\<lambda>s d. if s = ''100'' then Inr (100 * 10 ^ nat d)
                       else if s = ''10'' then Inr (10 * 10 ^ nat d)
                       else if s = ''0'' then Inr 0 else Inl ''invalid decimal value''),
      toISOString = (\<lambda>ms. Inr ''1970-01-01T00:16:40.000Z'') \<rparr>"

definition entry_abc :: entry where
  "entry_abc = \<lparr> conditionId = ''0xabc'', question = ''Q1'', endTimeUnix = 1000,
                 isSettled = False, winner = None \<rparr>"

definition entry_def :: entry where
  "entry_def = \<lparr> conditionId = ''0xdef'', question = ''Q2'', endTimeUnix = 1000,
                 isSettled = False, winner = None \<rparr>"

definition record_abc :: market_record where
  "record_abc =
     \<lparr> r_conditionId = ''0xabc'', r_question = ''Q1'', r_createdAt = ''2025-06-15T10:30:00.000Z'',
       r_endTime = ''1970-01-01T00:16:40.000Z'', r_endTimeUnix = 1000,
       r_collateral = \<lparr> col_symbol = ''USDC'',
                        col_address = ''0x833589fCD6eDb6E08f4c7C32D4f71b54bdA02913'',
                        col_decimals = 6 \<rparr>,
       r_initialLiquidity = ''100'', r_createTxHash = ''0xc1'',
       r_tradingRules = \<lparr> resolutionSource = ''S'', resolutionCriteria = ''C'',
                          additionalNotes = [] \<rparr>,
       r_settlement = \<lparr> s_isSettled = False, s_settleTxHash = None, s_winner = None,
                        s_settledAt = None \<rparr> \<rparr>"

definition settled_YES :: settlement where
  "settled_YES = \<lparr> s_isSettled = True, s_settleTxHash = Some ''0x51'', s_winner = Some YES,
                   s_settledAt = Some ''2025-06-15T10:30:00.000Z'' \<rparr>"

text \<open>Two due entries; the second has no market on the chain.\<close>

definition world_two_due :: "sim_chain world" where
  "world_two_due =
     \<lparr> chain = \<lparr> sim_now = 2000, sim_markets = [(''0xabc'', ''1000'', False)],
                 sim_nextId = ''0xabc'', sim_nextEnd = ''606800'' \<rparr>,
       trace = [],
       registryFile = Some [entry_abc, entry_def],
       marketFiles = [''0xabc'' \<mapsto> record_abc, ''0xdef'' \<mapsto> record_abc] \<rparr>"

text \<open>The only entry of the registry is settled.\<close>

definition world_all_settled :: "sim_chain world" where
  "world_all_settled =
     \<lparr> chain = \<lparr> sim_now = 2000, sim_markets = [(''0xabc'', ''1000'', True)],
                 sim_nextId = ''0xabc'', sim_nextEnd = ''606800'' \<rparr>,
       trace = [],
       registryFile = Some [entry_abc\<lparr>isSettled := True, winner := Some YES\<rparr>],
       marketFiles = [''0xabc'' \<mapsto> record_abc\<lparr>r_settlement := settled_YES\<rparr>] \<rparr>"

text \<open>
  The market file shows the settlement, the chain has it resolved, the registry entry is
  still unsettled: the state after a crash between the two writes.
\<close>

definition world_stale_index :: "sim_chain world" where
  "world_stale_index =
     \<lparr> chain = \<lparr> sim_now = 2000, sim_markets = [(''0xabc'', ''1000'', True)],
                 sim_nextId = ''0xabc'', sim_nextEnd = ''606800'' \<rparr>,
       trace = [],
       registryFile = Some [entry_abc],
       marketFiles = [''0xabc'' \<mapsto> record_abc\<lparr>r_settlement := settled_YES\<rparr>] \<rparr>"

text \<open>A market resolved on the chain whose end time, 3000, is still ahead of the clock, 2000.\<close>

definition world_resolved_early :: "sim_chain world" where
  "world_resolved_early =
     \<lparr> chain = \<lparr> sim_now = 2000, sim_markets = [(''0xabc'', ''3000'', True)],
                 sim_nextId = ''0xabc'', sim_nextEnd = ''606800'' \<rparr>,
       trace = [],
       registryFile = None,
       marketFiles = Map.empty \<rparr>"

text \<open>The same market, unresolved.\<close>

definition world_not_due :: "sim_chain world" where
  "world_not_due =
     \<lparr> chain = \<lparr> sim_now = 2000, sim_markets = [(''0xabc'', ''3000'', False)],
                 sim_nextId = ''0xabc'', sim_nextEnd = ''606800'' \<rparr>,
       trace = [],
       registryFile = None,
       marketFiles = Map.empty \<rparr>"


text \<open>The inputs of the examples: a creation, its collateral and rules, a trade.\<close>

definition params_usdc :: create_params where
  "params_usdc = \<lparr> cp_question = ''Q1'', cp_durationHours = Num 168, cp_liquidity = ''100'',
                    cp_collateral = Some ''USDC'', cp_decimals = None \<rparr>"

definition usdc :: collateral_info where
  "usdc = \<lparr> col_symbol = ''USDC'', col_address = ''0x833589fCD6eDb6E08f4c7C32D4f71b54bdA02913'',
             col_decimals = 6 \<rparr>"

definition rules_1 :: trading_rules where
  "rules_1 = \<lparr> resolutionSource = ''S'', resolutionCriteria = ''C'', additionalNotes = [] \<rparr>"

definition trade_abc :: trade_params where
  "trade_abc = \<lparr> tp_conditionId = ''0xabc'', tp_outcome = YES, tp_amount = ''10'',
                  tp_decimals = None, tp_minOut = None \<rparr>"

text \<open>One market, created and registered, not yet due for the chain.\<close>

definition world_registered :: "sim_chain world" where
  "world_registered =
     \<lparr> chain = \<lparr> sim_now = 2000, sim_markets = [(''0xabc'', ''1000'', False)],
                 sim_nextId = ''0xabc'', sim_nextEnd = ''606800'' \<rparr>,
       trace = [],
       registryFile = Some [entry_abc],
       marketFiles = [''0xabc'' \<mapsto> record_abc] \<rparr>"

text \<open>One settled market on disk; the chain is about to hand out a new condition id.\<close>

definition world_before_create :: "sim_chain world" where
  "world_before_create =
     \<lparr> chain = \<lparr> sim_now = 2000, sim_markets = [(''0xabc'', ''1000'', True)],
                 sim_nextId = ''0xnew'', sim_nextEnd = ''606800'' \<rparr>,
       trace = [],
       registryFile = Some [entry_abc\<lparr>isSettled := True, winner := Some YES\<rparr>],
       marketFiles = [''0xabc'' \<mapsto> record_abc\<lparr>r_settlement := settled_YES\<rparr>] \<rparr>"


section \<open>Unfolding lemmas\<close>

lemmas world_defs = world_two_due_def world_all_settled_def world_stale_index_def
  world_resolved_early_def world_not_due_def world_registered_def world_before_create_def

lemmas ex_defs = params_usdc_def usdc_def rules_1_def trade_abc_def

lemmas sim_defs = sim_client_def sim_rt_def sim_info_def sim_resolved_def sim_resolve_def
  entry_abc_def entry_def_def record_abc_def settled_YES_def
lemmas step_defs = bind_def return_def throw_def sdk_call_def lib_call_def get_now_def get_iso_def
  writeMarketFile_def writeRegistry_def readMarketFile_def updateRegistry_def
lemmas script_defs = checkAndSettleDueMarkets_def settleDue_def settleMarket_def
  getSettlementStatus_def

lemma settle_txs_append: "settle_txs (xs @ ys) = settle_txs xs @ settle_txs ys"
  by (induction xs) (auto split: event.splits)


lemma bind_cases:
  assumes "bind m f w = (r, w')"
  obtains (err) e where "m w = (Inl e, w')" "r = Inl e"
        | (ok) v w1 where "m w = (Inr v, w1)" "f v w1 = (r, w')"
  using assms by (auto simp: bind_def split: prod.splits sum.splits)

lemma sdk_call_effect:
  "sdk_call f ev w = (r, w') \<Longrightarrow>
     registryFile w' = registryFile w \<and> marketFiles w' = marketFiles w \<and> trace w' = trace w @ [ev]"
  by (auto simp: sdk_call_def split: prod.splits sum.splits)














lemma settled_in_upd:
  "s_isSettled (r_settlement rec) \<Longrightarrow> settled_in w c \<Longrightarrow> marketFiles w' = (marketFiles w)(k \<mapsto> rec)
     \<Longrightarrow> settled_in w' c"
  by (simp add: settled_in_def)



lemma submitMarket_frame:
  assumes "submitMarket client rt q h l a d w = (r, w')"
  shows "registryFile w' = registryFile w \<and> marketFiles w' = marketFiles w"
  using assms
  by (auto simp: submitMarket_def step_defs Let_def split: prod.splits sum.splits if_splits)

lemma createMarket_frame:
  assumes "createMarket client rt p w = (r, w')"
  shows "registryFile w' = registryFile w \<and> marketFiles w' = marketFiles w"
  using assms submitMarket_frame[of client rt _ _ _ _ _ w r w']
  by (auto simp: createMarket_def throw_def Let_def split: if_splits jsnum.splits option.splits)

lemma createAndRecordMarket_Inl:
  assumes "createAndRecordMarket client rt p col rules w = (Inl e, w')"
  shows "registryFile w' = registryFile w \<and> marketFiles w' = marketFiles w"
proof -
  obtain r1 w1 where c: "createMarket client rt p w = (r1, w1)"
    by (cases "createMarket client rt p w") simp
  from createMarket_frame[OF c] assms c show ?thesis
    by (auto simp: createAndRecordMarket_def step_defs Let_def split: sum.splits)
qed

lemma createAndRecordMarket_Inr:
  assumes "createAndRecordMarket client rt p col rules w = (Inr res, w')"
  shows "registryFile w' =
           Some ((case registryFile w of None \<Rightarrow> [] | Some ms \<Rightarrow> ms) @
                 [\<lparr> conditionId = cr_conditionId res, question = cp_question p,
                    endTimeUnix = cr_endTime res, isSettled = False, winner = None \<rparr>]) \<and>
         (\<exists>rec. marketFiles w' = (marketFiles w)(cr_conditionId res \<mapsto> rec) \<and>
                \<not> s_isSettled (r_settlement rec) \<and> s_winner (r_settlement rec) = None)"
proof -
  obtain r1 w1 where c: "createMarket client rt p w = (r1, w1)"
    by (cases "createMarket client rt p w") simp
  from createMarket_frame[OF c] assms c show ?thesis
    by (auto simp: createAndRecordMarket_def step_defs Let_def split: sum.splits)
qed










lemma timeLeftHours_1000: "timeLeftHours 1000 = 0"
  by code_simp

lemma timeLeftMinutes_1000: "timeLeftMinutes 1000 = 16"
  by code_simp





lemma createMarket_cbETH_rejected:
  "createMarket sim_client sim_rt (params_usdc\<lparr>cp_collateral := Some ''cbETH''\<rparr>) world_not_due
     = (Inl (UnknownToken ''cbETH''), world_not_due)"
  by (simp add: createMarket_def params_usdc_def sim_rt_def TOKENS_def toUpperCase_def upper_char_def
      throw_def Let_def)

lemma createMarket_valid_submits:
  "fst (createMarket sim_client sim_rt params_usdc world_not_due)
     = Inr \<lparr> cr_conditionId = ''0xabc'', cr_hash = ''0xc1'', cr_endTime = 606800 \<rparr> \<and>
   trace (snd (createMarket sim_client sim_rt params_usdc world_not_due))
     = [SdkCreateMarket \<lparr> ca_question = ''Q1'', ca_endTime = 606800,
          ca_initialLiquidity = 100000000,
          ca_collateralToken = ''0x833589fCD6eDb6E08f4c7C32D4f71b54bdA02913'' \<rparr>]"
  by (simp add: createMarket_def submitMarket_def params_usdc_def world_defs sim_defs TOKENS_def
      toUpperCase_def upper_char_def step_defs Let_def)

lemma trade_txs_append: "trade_txs (xs @ ys) = trade_txs xs @ trade_txs ys"
  by (induction xs) (auto split: event.splits)

lemma js_ge_iff: "js_ge (Num a) x = (\<exists>t. x = Num t \<and> t \<le> a)"
  by (cases x) auto

lemma js_le_iff: "js_le x (Num b) = (\<exists>a. x = Num a \<and> a \<le> b)"
  by (cases x) auto










lemma scan_without_registry:
  "registryFile w = None \<Longrightarrow> checkAndSettleDueMarkets client rt decide w = (Inr (), w)"
  by (simp add: checkAndSettleDueMarkets_def)

section \<open>The claims\<close>

subsection \<open>C1\<close>




subsection \<open>C2\<close>

text \<open>
  Claim C2, as amended.  The registry update never fails and never overwrites:
  \<open>updateRegistry\<close> returns normally and writes the old entries followed by the new
  one, whatever condition ids the old entries carry.  For the whole workflow after a creation:
  when it fails the registry file is unchanged; when it succeeds the registry file holds the
  old entries, unchanged and in order, followed by the entry of the new market.
\<close>

theorem registry_update_appends:
  "fst (updateRegistry e wa) = Inr () \<and>
   registryFile (snd (updateRegistry e wa))
     = Some ((case registryFile wa of None \<Rightarrow> [] | Some ms \<Rightarrow> ms) @ [e]) \<and>
   (createAndRecordMarket client rt p col rules w = (Inl err, w') \<longrightarrow>
      registryFile w' = registryFile w) \<and>
   (createAndRecordMarket client rt p col rules w = (Inr res, w') \<longrightarrow>
      registryFile w' =
        Some ((case registryFile w of None \<Rightarrow> [] | Some ms \<Rightarrow> ms) @
              [\<lparr> conditionId = cr_conditionId res, question = cp_question p,
                 endTimeUnix = cr_endTime res, isSettled = False, winner = None \<rparr>]))"
  using createAndRecordMarket_Inl[of client rt p col rules w err w']
        createAndRecordMarket_Inr[of client rt p col rules w res w']
  by (simp add: updateRegistry_def writeRegistry_def Let_def)

text \<open>
  A creation into an empty \<^verbatim>\<open>markets/\<close> directory, and a rejected creation next to
  an existing registry.
\<close>

theorem registry_update_appends_witness:
  "createAndRecordMarket sim_client sim_rt params_usdc usdc rules_1 world_not_due
     = (Inr \<lparr> cr_conditionId = ''0xabc'', cr_hash = ''0xc1'', cr_endTime = 606800 \<rparr>,
        snd (createAndRecordMarket sim_client sim_rt params_usdc usdc rules_1 world_not_due)) \<and>
   registryFile (snd (createAndRecordMarket sim_client sim_rt params_usdc usdc rules_1 world_not_due))
     = Some [entry_abc\<lparr>endTimeUnix := 606800\<rparr>] \<and>
   createAndRecordMarket sim_client sim_rt (params_usdc\<lparr>cp_collateral := Some ''DOGE''\<rparr>)
       usdc rules_1 world_registered
     = (Inl (UnknownToken ''DOGE''), world_registered) \<and>
   registryFile world_registered = Some [entry_abc]"
proof -
  let ?run = "createAndRecordMarket sim_client sim_rt params_usdc usdc rules_1 world_not_due"
  let ?res = "\<lparr> cr_conditionId = ''0xabc'', cr_hash = ''0xc1'', cr_endTime = 606800 \<rparr>"
  let ?bad = "createAndRecordMarket sim_client sim_rt (params_usdc\<lparr>cp_collateral := Some ''DOGE''\<rparr>)
       usdc rules_1 world_registered"
  have up: "toUpperCase ''DOGE'' = ''DOGE''" "toUpperCase ''USDC'' = ''USDC''"
    by (simp_all add: toUpperCase_def upper_char_def)
  have h1: "?run = (Inr ?res, snd ?run)"
    by (simp add: prod_eq_iff createAndRecordMarket_def createMarket_def submitMarket_def ex_defs
        world_defs sim_defs TOKENS_def up step_defs Let_def)
  have h2: "?bad = (Inl (UnknownToken ''DOGE''), world_registered)"
    by (simp add: createAndRecordMarket_def createMarket_def ex_defs
        sim_defs TOKENS_def up step_defs Let_def)
  have r0: "registryFile world_not_due = None" "registryFile world_registered = Some [entry_abc]"
    by (simp_all add: world_defs)
  note inst = registry_update_appends[where client = sim_client and rt = sim_rt
      and p = params_usdc and col = usdc and rules = rules_1 and w = world_not_due
      and w' = "snd ?run" and res = ?res and err = "UnknownToken ''DOGE''"
      and e = entry_abc and wa = world_not_due]
  from inst have "?run = (Inr ?res, snd ?run) \<longrightarrow>
      registryFile (snd ?run) =
        Some ((case registryFile world_not_due of None \<Rightarrow> [] | Some ms \<Rightarrow> ms) @
              [\<lparr> conditionId = cr_conditionId ?res, question = cp_question params_usdc,
                 endTimeUnix = cr_endTime ?res, isSettled = False, winner = None \<rparr>])"
    by blast
  with h1 have c1: "registryFile (snd ?run) = Some [entry_abc\<lparr>endTimeUnix := 606800\<rparr>]"
    by (simp add: r0 ex_defs entry_abc_def)
  from h1 c1 h2 r0 show ?thesis by simp
qed

text \<open>
  Claim C2 as written fails.  The registry holds an entry for \<^verbatim>\<open>0xabc\<close> and the chain
  answers the creation with \<^verbatim>\<open>0xabc\<close> again: the workflow succeeds and the registry
  ends with two entries of that condition id.
\<close>

theorem duplicate_conditionId_appended:
  "registryFile world_registered = Some [entry_abc] \<and>
   conditionId entry_abc = ''0xabc'' \<and>
   fst (createAndRecordMarket sim_client sim_rt params_usdc usdc rules_1 world_registered)
     = Inr \<lparr> cr_conditionId = ''0xabc'', cr_hash = ''0xc1'', cr_endTime = 606800 \<rparr> \<and>
   registryFile (snd (createAndRecordMarket sim_client sim_rt params_usdc usdc rules_1
       world_registered))
     = Some [entry_abc, entry_abc\<lparr>endTimeUnix := 606800\<rparr>]"
  by (simp add: createAndRecordMarket_def createMarket_def submitMarket_def ex_defs
      world_defs sim_defs TOKENS_def toUpperCase_def upper_char_def step_defs Let_def)

subsection \<open>C3\<close>


subsection \<open>C4\<close>




subsection \<open>C6\<close>

text \<open>
  Claim C6, as amended.  Let the chain answer \<open>getMarketInfo\<close> with an end time \<open>t\<close>
  that is ahead of the clock.  Then \<open>settleMarket\<close> fails and adds no settlement
  transaction to the trace.  For a non-empty condition id the failure is \<open>NotDue\<close> when
  the chain reports the market unresolved; when the chain reports it resolved the failure
  is \<open>AlreadySettled\<close>, or the failure of the winner lookup.
\<close>

theorem settle_before_end_time_fails:
  assumes "market_getMarketInfo client cid (chain w) = (Inr info, c1)"
      and "redemption_isResolved client cid c1 = (res, c2)"
      and "parseInt rt (info_endTime info) = Num t"
      and "of_int (date_now client c2) < t"
      and "settleMarket client rt \<lparr> sp_conditionId = cid, sp_outcome = out \<rparr> w = (r, w')"
  shows "settle_txs (trace w') = settle_txs (trace w) \<and>
         (\<exists>err. r = Inl err \<and>
            (cid \<noteq> [] \<and> res = Inr False \<longrightarrow> kind_of err = NotDue) \<and>
            (cid \<noteq> [] \<and> res = Inr True \<longrightarrow>
               kind_of err = AlreadySettled \<or> kind_of err = ExternalFailure))"
  using assms
  by (auto simp: settleMarket_def getSettlementStatus_def step_defs Let_def settle_txs_append
      split: prod.splits sum.splits if_splits)

text \<open>End time 3000, clock 2000, market unresolved: 0 hours and 16 minutes are left.\<close>

theorem settle_before_end_time_fails_witness:
  "fst (settleMarket sim_client sim_rt \<lparr> sp_conditionId = ''0xabc'', sp_outcome = YES \<rparr>
          world_not_due) = Inl (CannotSettleYet (Some 0) (Some 16)) \<and>
   kind_of (CannotSettleYet (Some 0) (Some 16)) = NotDue \<and>
   settle_txs (trace (snd (settleMarket sim_client sim_rt
          \<lparr> sp_conditionId = ''0xabc'', sp_outcome = YES \<rparr> world_not_due))) = []"
proof -
  let ?sm = "settleMarket sim_client sim_rt \<lparr> sp_conditionId = ''0xabc'', sp_outcome = YES \<rparr>
          world_not_due"
  let ?info = "\<lparr> info_question = ''Q1'', info_endTime = ''3000'', info_isSettled = False \<rparr>"
  have h1: "market_getMarketInfo sim_client ''0xabc'' (chain world_not_due)
              = (Inr ?info, chain world_not_due)"
    by (simp add: world_not_due_def sim_defs)
  have h2: "redemption_isResolved sim_client ''0xabc'' (chain world_not_due)
              = (Inr False, chain world_not_due)"
    by (simp add: world_not_due_def sim_defs)
  have h3: "parseInt sim_rt (info_endTime ?info) = Num 3000" by (simp add: sim_rt_def)
  have h4: "of_int (date_now sim_client (chain world_not_due)) < (3000::rat)"
    by (simp add: world_not_due_def sim_defs)
  have h5: "?sm = (fst ?sm, snd ?sm)" by simp
  have ev: "fst ?sm = Inl (CannotSettleYet (Some 0) (Some 16))"
    by (simp add: world_not_due_def sim_defs step_defs script_defs Let_def timeLeftHours_1000 timeLeftMinutes_1000)
  from settle_before_end_time_fails[OF h1 h2 h3 h4 h5] ev show ?thesis
    by (simp add: world_not_due_def)
qed

text \<open>
  Claim C6 as written fails.  End time 3000, clock 2000, but the chain reports the market
  resolved: the failure is \<open>MarketAlreadySettled\<close>, not \<open>NotDue\<close>.
\<close>

theorem settle_resolved_before_end_time:
  "endTimeUnix (entry_abc\<lparr>endTimeUnix := 3000\<rparr>)
     > of_int (date_now sim_client (chain world_resolved_early)) \<and>
   market_getMarketInfo sim_client ''0xabc'' (chain world_resolved_early)
     = (Inr \<lparr> info_question = ''Q1'', info_endTime = ''3000'', info_isSettled = True \<rparr>,
        chain world_resolved_early) \<and>
   parseInt sim_rt ''3000'' = Num 3000 \<and>
   date_now sim_client (chain world_resolved_early) = 2000 \<and>
   fst (settleMarket sim_client sim_rt \<lparr> sp_conditionId = ''0xabc'', sp_outcome = YES \<rparr>
          world_resolved_early) = Inl (MarketAlreadySettled (Some YES)) \<and>
   kind_of (MarketAlreadySettled (Some YES)) \<noteq> NotDue"
  by (simp add: world_defs sim_defs step_defs script_defs Let_def)

subsection \<open>C7\<close>



subsection \<open>C8\<close>





subsection \<open>C9\<close>

text \<open>
  Claim C9.  Let \<open>getMarketInfo\<close> answer with a market whose end time is at or before
  the clock, or which is settled.  Then \<open>buyTokens\<close> and \<open>sellTokens\<close> fail and add
  no buy or sell call to the trace.  The error is that of the first guard that fires: the
  two argument checks, then \<open>TradingPeriodEnded\<close>, then \<open>MarketSettled\<close>.
\<close>

theorem trade_preflight_rejects_closed_market:
  assumes "market_getMarketInfo client (tp_conditionId p) (chain w) = (Inr info, c1)"
      and "(\<exists>t. parseInt rt (info_endTime info) = Num t \<and> t \<le> of_int (date_now client c1)) \<or>
           info_isSettled info"
  shows "(\<exists>w'. buyTokens client rt p w =
            (Inl (if tp_conditionId p = [] then ConditionIdRequired
                  else if tp_amount p = [] \<or>
                          (\<exists>a. parseFloat rt (tp_amount p) = Num a \<and> a \<le> 0)
                    then AmountNotPositive
                  else if \<exists>t. parseInt rt (info_endTime info) = Num t \<and>
                              t \<le> of_int (date_now client c1)
                    then TradingPeriodEnded
                  else MarketSettled), w') \<and>
            trade_txs (trace w') = trade_txs (trace w)) \<and>
         (\<exists>w'. sellTokens client rt p w =
            (Inl (if tp_conditionId p = [] then ConditionIdRequired
                  else if tp_amount p = [] \<or>
                          (\<exists>a. parseFloat rt (tp_amount p) = Num a \<and> a \<le> 0)
                    then AmountNotPositive
                  else if \<exists>t. parseInt rt (info_endTime info) = Num t \<and>
                              t \<le> of_int (date_now client c1)
                    then TradingPeriodEnded
                  else MarketSettled), w') \<and>
            trade_txs (trace w') = trade_txs (trace w))"
proof -
  let ?err = "if tp_conditionId p = [] then ConditionIdRequired
              else if tp_amount p = [] \<or> js_le (parseFloat rt (tp_amount p)) (Num 0)
                then AmountNotPositive
              else if js_ge (Num (of_int (date_now client c1))) (parseInt rt (info_endTime info))
                then TradingPeriodEnded
              else MarketSettled"
  from assms(2) have closed:
    "js_ge (Num (of_int (date_now client c1))) (parseInt rt (info_endTime info)) \<or>
     info_isSettled info"
    by (simp add: js_ge_iff)
  have b: "\<exists>w'. buyTokens client rt p w = (Inl ?err, w') \<and>
            trade_txs (trace w') = trade_txs (trace w)"
    using assms(1) closed
    by (auto simp: buyTokens_def step_defs Let_def trade_txs_append)
  have s: "\<exists>w'. sellTokens client rt p w = (Inl ?err, w') \<and>
            trade_txs (trace w') = trade_txs (trace w)"
    using assms(1) closed
    by (auto simp: sellTokens_def step_defs Let_def trade_txs_append)
  from b s show ?thesis
    unfolding js_ge_iff js_le_iff by simp
qed

text \<open>A market that ended at 1000, traded at 2000.\<close>

theorem trade_preflight_rejects_closed_market_witness:
  "buyTokens sim_client sim_rt trade_abc world_all_settled
     = (Inl TradingPeriodEnded, world_all_settled\<lparr>trace := [SdkGetMarketInfo ''0xabc'']\<rparr>) \<and>
   sellTokens sim_client sim_rt trade_abc world_all_settled
     = (Inl TradingPeriodEnded, world_all_settled\<lparr>trace := [SdkGetMarketInfo ''0xabc'']\<rparr>) \<and>
   trade_txs [SdkGetMarketInfo ''0xabc''] = []"
proof -
  let ?info = "\<lparr> info_question = ''Q1'', info_endTime = ''1000'', info_isSettled = True \<rparr>"
  have h1: "market_getMarketInfo sim_client (tp_conditionId trade_abc) (chain world_all_settled)
              = (Inr ?info, chain world_all_settled)"
    by (simp add: trade_abc_def world_all_settled_def sim_defs)
  have h2: "(\<exists>t. parseInt sim_rt (info_endTime ?info) = Num t \<and>
                 t \<le> of_int (date_now sim_client (chain world_all_settled))) \<or>
            info_isSettled ?info"
    by (simp add: world_all_settled_def sim_defs)
  have b: "fst (buyTokens sim_client sim_rt trade_abc world_all_settled) = Inl TradingPeriodEnded"
    using trade_preflight_rejects_closed_market[OF h1 h2]
    by (auto simp: trade_abc_def world_all_settled_def sim_defs)
  have bw: "snd (buyTokens sim_client sim_rt trade_abc world_all_settled)
              = world_all_settled\<lparr>trace := [SdkGetMarketInfo ''0xabc'']\<rparr>"
    by (simp add: buyTokens_def trade_abc_def world_all_settled_def sim_defs step_defs Let_def)
  have s: "fst (sellTokens sim_client sim_rt trade_abc world_all_settled) = Inl TradingPeriodEnded"
    using trade_preflight_rejects_closed_market[OF h1 h2]
    by (auto simp: trade_abc_def world_all_settled_def sim_defs)
  have sw: "snd (sellTokens sim_client sim_rt trade_abc world_all_settled)
              = world_all_settled\<lparr>trace := [SdkGetMarketInfo ''0xabc'']\<rparr>"
    by (simp add: sellTokens_def trade_abc_def world_all_settled_def sim_defs step_defs Let_def)
  from b bw s sw show ?thesis by (simp add: prod_eq_iff)
qed

subsection \<open>C10\<close>



end
